theory Spec2Isabelle
  imports Complex_Main
begin

section \<open>Conventions of the embedding\<close>

text \<open>
  The repository resamples a window of a global elevation raster (\<open>sample.py\<close>) and
  colours a heightmap (\<open>export.py\<close>). A Python float is a \<^typ>\<open>real\<close>; \<open>nan\<close> and
  \<open>inf\<close> are not values of the model. The arithmetic comes in two forms. \<open>interp1\<close>, \<open>main_bounds\<close> and
  \<open>defaultColorMap\<close> compute over exact arithmetic: they carry the statements that
  are made over exact arithmetic or that no rounding can change. \<open>interp1_f64\<close>,
  \<open>main_bounds_f64\<close>, \<open>arange\<close> and the pipeline \<open>main_from_quad\<close> round the result
  of every floating-point operation to binary64, as the interpreter does: they carry
  every statement about the values and sizes the code produces at a given input.
  Python integers are \<^typ>\<open>int\<close>, array dimensions are \<^typ>\<open>nat\<close>. Every exception
  the modelled code can raise is a value \<open>Inl e\<close> of a sum type.
\<close>

datatype py_error =
    ValueError
  | IndexError
  | ZeroDivisionError
  | InsufficientSamplesError

text \<open>Sequencing of two computations that may raise: the first exception wins.\<close>

definition bind_err :: "py_error + 'a \<Rightarrow> ('a \<Rightarrow> py_error + 'b) \<Rightarrow> py_error + 'b" where
  "bind_err m f = (case m of Inl e \<Rightarrow> Inl e | Inr v \<Rightarrow> f v)"

text \<open>Python's \<open>xs[i]\<close> for a non-negative literal index \<open>i\<close>.\<close>

definition index :: "'a list \<Rightarrow> nat \<Rightarrow> py_error + 'a" where
  "index xs i = (if i < length xs then Inr (xs ! i) else Inl IndexError)"

section \<open>\<open>interp1\<close> (sample.py lines 48-53, export.py lines 20-26)\<close>

text \<open>
  \<^verbatim>\<open>pct = (x - xx[0]) / (xx[1] - xx[0]); return yy[0] + pct * (yy[1] - yy[0])\<close>.
  The two files hold the same function. Python evaluates \<open>xx[0]\<close>, \<open>xx[1]\<close>, then the
  division (which raises on a zero divisor), then \<open>yy[0]\<close> and \<open>yy[1]\<close>.
\<close>

definition interp1 :: "real list \<Rightarrow> real list \<Rightarrow> real \<Rightarrow> py_error + real" where
  "interp1 xs ys x =
     bind_err (index xs 0) (\<lambda>xa.
     bind_err (index xs 1) (\<lambda>xb.
     if xb - xa = 0 then Inl ZeroDivisionError
     else let pct = (x - xa) / (xb - xa) in
       bind_err (index ys 0) (\<lambda>ya.
       bind_err (index ys 1) (\<lambda>yb.
       Inr (ya + pct * (yb - ya))))))"

section \<open>Binary64 arithmetic\<close>

text \<open>
  Rounding to the nearest integer, ties to the even one.
\<close>

definition round_even :: "real \<Rightarrow> int" where
  "round_even x =
     (let f = \<lfloor>x\<rfloor>; d = x - of_int f
      in if d < 1 / 2 then f
         else if 1 / 2 < d then f + 1
         else if even f then f else f + 1)"

text \<open>
  The spacing of the binary64 numbers around a positive \<open>x\<close>: the power of two \<open>u\<close>
  with \<open>u * 2^52 \<le> x < u * 2^53\<close>, searched from \<open>u = 1\<close> by halving or doubling. The
  fuel covers the exponent range of the format.
\<close>

fun ulp_search :: "nat \<Rightarrow> real \<Rightarrow> real \<Rightarrow> real" where
  "ulp_search 0 x u = u"
| "ulp_search (Suc n) x u =
     (if x < u * 2 ^ 52 then ulp_search n x (u / 2)
      else if u * 2 ^ 53 \<le> x then ulp_search n x (u * 2)
      else u)"

text \<open>
  \<open>fl x\<close> is the binary64 number nearest to \<open>x\<close>, ties to the even significand: what
  an IEEE 754 operation returns when its exact result is \<open>x\<close>. Overflow and gradual
  underflow are not modelled; no value of the pipeline on a raster comes near either.
\<close>

definition fl :: "real \<Rightarrow> real" where
  "fl x = (if x = 0 then 0
           else let u = ulp_search 1100 \<bar>x\<bar> 1 in of_int (round_even (x / u)) * u)"

text \<open>
  \<open>interp1\<close> as the interpreter computes it on floats: the same five operations, each
  rounded. On the Python integers its callers pass in \<open>xx\<close> and \<open>yy\<close> the rounding
  changes nothing.
\<close>

definition interp1_f64 :: "real list \<Rightarrow> real list \<Rightarrow> real \<Rightarrow> py_error + real" where
  "interp1_f64 xs ys x =
     bind_err (index xs 0) (\<lambda>xa.
     bind_err (index xs 1) (\<lambda>xb.
     if fl (xb - xa) = 0 then Inl ZeroDivisionError
     else let pct = fl (fl (x - xa) / fl (xb - xa)) in
       bind_err (index ys 0) (\<lambda>ya.
       bind_err (index ys 1) (\<lambda>yb.
       Inr (fl (ya + fl (pct * fl (yb - ya))))))))"

section \<open>\<open>getQuad\<close> (sample.py lines 23-46)\<close>

text \<open>
  Reading the file and the XML parse are library calls; the model starts at
  \<open>parts = coords.text.split()\<close>. A part is the list of its comma-separated pieces,
  and a piece is represented by what \<open>float\<close> does with it: it yields a number or it
  raises \<open>ValueError\<close>.
\<close>

datatype piece = Numeric real | NonNumeric

fun float_py :: "piece \<Rightarrow> py_error + real" where
  "float_py (Numeric r) = Inr r"
| "float_py NonNumeric = Inl ValueError"

text \<open>\<^verbatim>\<open>values = [float(v) for v in part.split(",")]\<close>: the first bad piece raises.\<close>

fun floats :: "piece list \<Rightarrow> py_error + real list" where
  "floats [] = Inr []"
| "floats (v # vs) =
     bind_err (float_py v) (\<lambda>r.
     bind_err (floats vs) (\<lambda>rs. Inr (r # rs)))"

text \<open>
  The loop over \<open>parts\<close>, with the two accumulators \<open>lats\<close> and \<open>lons\<close>:
  \<open>values[1]\<close> is appended to \<open>lats\<close>, then \<open>values[0]\<close> to \<open>lons\<close>.
\<close>

fun getQuad_loop ::
  "piece list list \<Rightarrow> real list \<Rightarrow> real list \<Rightarrow> py_error + (real list \<times> real list)" where
  "getQuad_loop [] lats lons = Inr (lats, lons)"
| "getQuad_loop (part # parts) lats lons =
     bind_err (floats part) (\<lambda>vals.
     bind_err (index vals 1) (\<lambda>lat.
     bind_err (index vals 0) (\<lambda>lon.
     getQuad_loop parts (lats @ [lat]) (lons @ [lon]))))"

text \<open>Python's \<open>min\<close> and \<open>max\<close> of a list: \<open>ValueError\<close> on the empty list.\<close>

fun py_min :: "real list \<Rightarrow> py_error + real" where
  "py_min [] = Inl ValueError"
| "py_min (x # xs) = Inr (fold min xs x)"

fun py_max :: "real list \<Rightarrow> py_error + real" where
  "py_max [] = Inl ValueError"
| "py_max (x # xs) = Inr (fold max xs x)"

text \<open>The returned list \<open>[latMin, latMax, lonMin, lonMax]\<close> is a 4-tuple.\<close>

type_synonym quad = "real \<times> real \<times> real \<times> real"

definition getQuad :: "piece list list \<Rightarrow> py_error + quad" where
  "getQuad parts =
     bind_err (getQuad_loop parts [] []) (\<lambda>(lats, lons).
     bind_err (py_min lats) (\<lambda>latMin.
     bind_err (py_max lats) (\<lambda>latMax.
     bind_err (py_min lons) (\<lambda>lonMin.
     bind_err (py_max lons) (\<lambda>lonMax.
     Inr (latMin, latMax, lonMin, lonMax))))))"

text \<open>
  Vocabulary for statements about boundaries: a part that the loop body accepts has at
  least two pieces, all of them numeric; its longitude is the first piece and its
  latitude the second.
\<close>

fun is_numeric :: "piece \<Rightarrow> bool" where
  "is_numeric (Numeric r) = True"
| "is_numeric NonNumeric = False"

fun num_of :: "piece \<Rightarrow> real" where
  "num_of (Numeric r) = r"
| "num_of NonNumeric = 0"

definition vertex_ok :: "piece list \<Rightarrow> bool" where
  "vertex_ok part = (2 \<le> length part \<and> list_all is_numeric part)"

definition lat_of :: "piece list \<Rightarrow> real" where
  "lat_of part = num_of (part ! 1)"

definition lon_of :: "piece list \<Rightarrow> real" where
  "lon_of part = num_of (part ! 0)"

section \<open>\<open>main\<close> (sample.py lines 55-83)\<close>

text \<open>
  The raster read by \<open>imageio.imread\<close>: its shape \<open>(J, I)\<close> and its samples.
\<close>

record raster =
  shape_J :: nat
  shape_I :: nat
  sample :: "nat \<Rightarrow> nat \<Rightarrow> real"

text \<open>Lines 66-73: the fractional and the integer pixel bounds of a quad.\<close>

record pixel_bounds =
  y0 :: real
  yF :: real
  x0 :: real
  xF :: real
  j0 :: int
  jF :: int
  i0 :: int
  iF :: int

definition main_bounds :: "quad \<Rightarrow> nat \<Rightarrow> nat \<Rightarrow> py_error + pixel_bounds" where
  "main_bounds q J I = (case q of (latMin, latMax, lonMin, lonMax) \<Rightarrow>
     bind_err (interp1 [90, - 90] [0, real J] latMax) (\<lambda>y0'.
     bind_err (interp1 [90, - 90] [0, real J] latMin) (\<lambda>yF'.
     bind_err (interp1 [- 180, 180] [0, real I] lonMin) (\<lambda>x0'.
     bind_err (interp1 [- 180, 180] [0, real I] lonMax) (\<lambda>xF'.
     Inr \<lparr>y0 = y0', yF = yF', x0 = x0', xF = xF',
          j0 = \<lfloor>y0'\<rfloor>, jF = \<lceil>yF'\<rceil>, i0 = \<lfloor>x0'\<rfloor>, iF = \<lceil>xF'\<rceil>\<rparr>)))))"

text \<open>The same lines in binary64: \<open>math.floor\<close> and \<open>math.ceil\<close> are exact.\<close>

definition main_bounds_f64 :: "quad \<Rightarrow> nat \<Rightarrow> nat \<Rightarrow> py_error + pixel_bounds" where
  "main_bounds_f64 q J I = (case q of (latMin, latMax, lonMin, lonMax) \<Rightarrow>
     bind_err (interp1_f64 [90, - 90] [0, real J] latMax) (\<lambda>y0'.
     bind_err (interp1_f64 [90, - 90] [0, real J] latMin) (\<lambda>yF'.
     bind_err (interp1_f64 [- 180, 180] [0, real I] lonMin) (\<lambda>x0'.
     bind_err (interp1_f64 [- 180, 180] [0, real I] lonMax) (\<lambda>xF'.
     Inr \<lparr>y0 = y0', yF = yF', x0 = x0', xF = xF',
          j0 = \<lfloor>y0'\<rfloor>, jF = \<lceil>yF'\<rceil>, i0 = \<lfloor>x0'\<rfloor>, iF = \<lceil>xF'\<rceil>\<rparr>)))))"

text \<open>
  Line 76, \<^verbatim>\<open>numpy.take(numpy.take(topo, jj, 0), ii, 1)\<close>. \<open>numpy.take\<close> in its default
  mode accepts an index \<open>k\<close> of an axis of length \<open>n\<close> when \<open>- n \<le> k < n\<close>, a negative
  one counting from the end, and raises \<open>IndexError\<close> otherwise. Along axis 0 every
  index is checked; along axis 1 the indices are checked once per row, so that nothing
  is checked when the first take selected no row.
\<close>

definition take_index :: "nat \<Rightarrow> int \<Rightarrow> py_error + nat" where
  "take_index n k =
     (if 0 \<le> k \<and> k < int n then Inr (nat k)
      else if - int n \<le> k \<and> k < 0 then Inr (nat (k + int n))
      else Inl IndexError)"

fun take_indices :: "nat \<Rightarrow> int list \<Rightarrow> py_error + nat list" where
  "take_indices n [] = Inr []"
| "take_indices n (k # ks) =
     bind_err (take_index n k) (\<lambda>r.
     bind_err (take_indices n ks) (\<lambda>rs. Inr (r # rs)))"

definition main_subgrid :: "raster \<Rightarrow> int list \<Rightarrow> int list \<Rightarrow> py_error + real list list" where
  "main_subgrid topo js is =
     bind_err (take_indices (shape_J topo) js) (\<lambda>rows.
     if rows = [] then Inr []
     else bind_err (take_indices (shape_I topo) is) (\<lambda>cols.
       Inr (map (\<lambda>r. map (\<lambda>c. sample topo r c) cols) rows)))"

text \<open>A fitted surface: the value at a row and a column coordinate.\<close>

type_synonym surface = "real \<Rightarrow> real \<Rightarrow> real"

text \<open>
  Modelled from the spec: \<open>scipy.interpolate.RectBivariateSpline\<close>, called on line 77
  with its default degrees (cubic in both axes), is a library class with no source in
  the repository. Section 4.4 of the specification says of the fit that the sub-grid
  must contain at least 4 points per axis and that it fails with
  \<open>InsufficientSamplesError\<close> otherwise. The fitted surface itself is the parameter
  \<open>spline\<close>: nothing is assumed about its values.
\<close>

definition RectBivariateSpline ::
  "(int list \<Rightarrow> int list \<Rightarrow> real list list \<Rightarrow> surface) \<Rightarrow>
   int list \<Rightarrow> int list \<Rightarrow> real list list \<Rightarrow> py_error + surface" where
  "RectBivariateSpline spline js is z =
     (if length js < 4 \<or> length is < 4 then Inl InsufficientSamplesError
      else Inr (spline js is z))"

text \<open>
  \<open>numpy.arange(start, stop, step)\<close> on floats. The length is the ceiling of
  \<open>(stop - start) / step\<close> as computed in binary64, or zero when that is not positive.
  The first value is \<open>start\<close>, the second \<open>start + step\<close>, and the \<open>k\<close>-th is
  \<open>start + k * delta\<close> where \<open>delta\<close> is the difference of the first two, every
  operation rounded.
\<close>

definition arange :: "real \<Rightarrow> real \<Rightarrow> real \<Rightarrow> real list" where
  "arange start stop step =
     (let n = nat \<lceil>fl (fl (stop - start) / step)\<rceil>;
          nxt = fl (start + step);
          delta = fl (nxt - start)
      in map (\<lambda>k. if k = 0 then start
                  else if k = 1 then nxt
                  else fl (start + fl (real k * delta))) [0 ..< n])"

text \<open>
  Lines 65-80 of \<open>main\<close>, from the quad to the resampled array, in binary64. The
  result keeps the intermediate values the statements below are about. \<open>1.0 / ppd\<close>
  raises on \<open>ppd = 0\<close>. Writing the file and printing (lines 81-83) are not modelled.
\<close>

record resampled = pixel_bounds +
  jj :: "int list"
  ii :: "int list"
  yy :: "real list"
  xx :: "real list"
  alt :: "real list list"

definition main_from_quad ::
  "(int list \<Rightarrow> int list \<Rightarrow> real list list \<Rightarrow> surface) \<Rightarrow>
   quad \<Rightarrow> raster \<Rightarrow> real \<Rightarrow> py_error + resampled" where
  "main_from_quad spline q topo ppd =
     bind_err (main_bounds_f64 q (shape_J topo) (shape_I topo)) (\<lambda>b.
     let js = [j0 b .. jF b - 1]; is = [i0 b .. iF b - 1] in
     bind_err (main_subgrid topo js is) (\<lambda>z.
     bind_err (RectBivariateSpline spline js is z) (\<lambda>rbs.
     if ppd = 0 then Inl ZeroDivisionError
     else let ys = arange (y0 b) (yF b) (fl (1 / ppd));
              xs = arange (x0 b) (xF b) (fl (1 / ppd)) in
       Inr (pixel_bounds.extend b
              \<lparr>jj = js, ii = is, yy = ys, xx = xs,
               alt = map (\<lambda>y. map (\<lambda>x. rbs y x) xs) ys\<rparr>))))"

definition main ::
  "(int list \<Rightarrow> int list \<Rightarrow> real list list \<Rightarrow> surface) \<Rightarrow>
   piece list list \<Rightarrow> raster \<Rightarrow> real \<Rightarrow> py_error + resampled" where
  "main spline parts topo ppd =
     bind_err (getQuad parts) (\<lambda>q. main_from_quad spline q topo ppd)"

section \<open>\<open>defaultColorMap\<close> (export.py lines 28-46)\<close>

text \<open>
  The three components are computed in order; \<open>range[0]\<close> and \<open>range[1]\<close> are read
  when the list literal passed to \<open>interp1\<close> is built.
\<close>

definition defaultColorMap :: "real \<Rightarrow> real list \<Rightarrow> py_error + real list" where
  "defaultColorMap a rng =
     (if a < 0 then
        bind_err (index rng 0) (\<lambda>lo.
        bind_err (interp1 [lo, 0] [0, 0] a) (\<lambda>r.
        bind_err (interp1 [lo, 0] [0, 0] a) (\<lambda>g.
        bind_err (interp1 [lo, 0] [0, 1] a) (\<lambda>b. Inr [r, g, b]))))
      else
        bind_err (index rng 1) (\<lambda>hi.
        bind_err (interp1 [0, hi] [0, 1] a) (\<lambda>r.
        bind_err (interp1 [0, hi] [1, 1] a) (\<lambda>g.
        bind_err (interp1 [0, hi] [0, 1] a) (\<lambda>b. Inr [r, g, b])))))"

text \<open>The indices \<open>numpy.take\<close> accepts on an axis of length \<open>n\<close>.\<close>

definition valid_index :: "nat \<Rightarrow> int \<Rightarrow> bool" where
  "valid_index n k = (- int n \<le> k \<and> k < int n)"

section \<open>Concrete inputs\<close>

text \<open>
  A raster of a given shape with every sample at sea level, and a fitted surface that
  is zero everywhere: the inputs of the concrete evaluations below, none of which
  depends on a sample value.
\<close>

definition flat_raster :: "nat \<Rightarrow> nat \<Rightarrow> raster" where
  "flat_raster J I = \<lparr>shape_J = J, shape_I = I, sample = (\<lambda>r c. 0)\<rparr>"

definition zero_spline :: "int list \<Rightarrow> int list \<Rightarrow> real list list \<Rightarrow> surface" where
  "zero_spline js is z y x = 0"

section \<open>Basic facts\<close>

lemma bind_err_simps:
  "bind_err (Inl e) f = Inl e"
  "bind_err (Inr v) f = f v"
  by (simp_all add: bind_err_def)

lemma index_pair:
  "index [a, b] 0 = Inr a"
  "index [a, b] (Suc 0) = Inr b"
  by (simp_all add: index_def)

text \<open>\<open>interp1\<close> on the two-element lists every caller passes.\<close>

lemma interp1_pair:
  "interp1 [xa, xb] [ya, yb] x =
     (if xb = xa then Inl ZeroDivisionError
      else Inr (ya + (x - xa) / (xb - xa) * (yb - ya)))"
  by (simp add: interp1_def index_pair bind_err_simps Let_def)

lemma interp1_row: "interp1 [90, - 90] [0, real J] v = Inr ((90 - v) * real J / 180)"
  by (simp add: interp1_pair field_simps)

lemma interp1_col: "interp1 [- 180, 180] [0, real I] v = Inr ((v + 180) * real I / 360)"
  by (simp add: interp1_pair field_simps)

lemma main_bounds_eq:
  "main_bounds (latMin, latMax, lonMin, lonMax) J I =
     Inr \<lparr>y0 = (90 - latMax) * real J / 180, yF = (90 - latMin) * real J / 180,
          x0 = (lonMin + 180) * real I / 360, xF = (lonMax + 180) * real I / 360,
          j0 = \<lfloor>(90 - latMax) * real J / 180\<rfloor>, jF = \<lceil>(90 - latMin) * real J / 180\<rceil>,
          i0 = \<lfloor>(lonMin + 180) * real I / 360\<rfloor>, iF = \<lceil>(lonMax + 180) * real I / 360\<rceil>\<rparr>"
  by (simp add: main_bounds_def interp1_row interp1_col bind_err_simps)

text \<open>Evaluating \<open>fl\<close>, and \<open>interp1_f64\<close> on two-element lists.\<close>

lemma ulp_search_numeral:
  "ulp_search (numeral k) x u =
     (if x < u * 2 ^ 52 then ulp_search (pred_numeral k) x (u / 2)
      else if u * 2 ^ 53 \<le> x then ulp_search (pred_numeral k) x (u * 2)
      else u)"
  by (simp add: numeral_eq_Suc)

lemmas fl_eval = fl_def round_even_def ulp_search_numeral Let_def

lemma fl_0: "fl 0 = 0"
  by (simp add: fl_def)

lemma fl_180: "fl (- 180) = - 180"
  by (simp add: fl_eval)

lemma fl_360: "fl 360 = 360"
  by (simp add: fl_eval)

lemma interp1_f64_pair:
  "interp1_f64 [xa, xb] [ya, yb] x =
     (if fl (xb - xa) = 0 then Inl ZeroDivisionError
      else Inr (fl (ya + fl (fl (fl (x - xa) / fl (xb - xa)) * fl (yb - ya)))))"
  by (simp add: interp1_f64_def index_pair bind_err_simps Let_def)

lemma interp1_f64_row: "\<exists>y. interp1_f64 [90, - 90] [0, real J] v = Inr y"
  by (simp add: interp1_f64_pair fl_180)

lemma interp1_f64_col: "\<exists>x. interp1_f64 [- 180, 180] [0, real I] v = Inr x"
  by (simp add: interp1_f64_pair fl_360)

lemma main_bounds_f64_Inr:
  assumes "interp1_f64 [90, - 90] [0, real J] latMax = Inr ya"
    and "interp1_f64 [90, - 90] [0, real J] latMin = Inr yb"
    and "interp1_f64 [- 180, 180] [0, real I] lonMin = Inr xa"
    and "interp1_f64 [- 180, 180] [0, real I] lonMax = Inr xb"
  shows "main_bounds_f64 (latMin, latMax, lonMin, lonMax) J I =
           Inr \<lparr>y0 = ya, yF = yb, x0 = xa, xF = xb,
                j0 = \<lfloor>ya\<rfloor>, jF = \<lceil>yb\<rceil>, i0 = \<lfloor>xa\<rfloor>, iF = \<lceil>xb\<rceil>\<rparr>"
  by (simp add: main_bounds_f64_def assms bind_err_simps)

text \<open>The enclosure of claim C2 holds of the rounded bounds as well.\<close>

lemma main_bounds_f64_enclose:
  "\<exists>b. main_bounds_f64 (latMin, latMax, lonMin, lonMax) J I = Inr b
     \<and> j0 b = \<lfloor>y0 b\<rfloor> \<and> jF b = \<lceil>yF b\<rceil> \<and> i0 b = \<lfloor>x0 b\<rfloor> \<and> iF b = \<lceil>xF b\<rceil>
     \<and> real_of_int (j0 b) \<le> y0 b \<and> yF b \<le> real_of_int (jF b)
     \<and> real_of_int (i0 b) \<le> x0 b \<and> xF b \<le> real_of_int (iF b)"
proof -
  obtain ya yb xa xb where i:
    "interp1_f64 [90, - 90] [0, real J] latMax = Inr ya"
    "interp1_f64 [90, - 90] [0, real J] latMin = Inr yb"
    "interp1_f64 [- 180, 180] [0, real I] lonMin = Inr xa"
    "interp1_f64 [- 180, 180] [0, real I] lonMax = Inr xb"
    using interp1_f64_row interp1_f64_col by blast
  show ?thesis
    unfolding main_bounds_f64_Inr [OF i] by simp
qed

text \<open>Facts about \<open>getQuad\<close>.\<close>

lemma floats_numeric: "list_all is_numeric part \<Longrightarrow> floats part = Inr (map num_of part)"
proof (induction part)
  case Nil
  then show ?case by simp
next
  case (Cons v vs)
  then show ?case by (cases v) (simp_all add: bind_err_simps)
qed

lemma floats_non_numeric: "\<not> list_all is_numeric part \<Longrightarrow> floats part = Inl ValueError"
proof (induction part)
  case Nil
  then show ?case by simp
next
  case (Cons v vs)
  show ?case
  proof (cases v)
    case (Numeric r)
    with Cons show ?thesis by (simp add: bind_err_simps)
  next
    case NonNumeric
    then show ?thesis by (simp add: bind_err_simps)
  qed
qed

lemma getQuad_loop_ok:
  "list_all vertex_ok parts \<Longrightarrow>
     getQuad_loop parts lats lons = Inr (lats @ map lat_of parts, lons @ map lon_of parts)"
proof (induction parts arbitrary: lats lons)
  case Nil
  then show ?case by simp
next
  case (Cons p ps)
  from Cons.prems have "vertex_ok p" and ps: "list_all vertex_ok ps"
    by simp_all
  then have p: "2 \<le> length p" "list_all is_numeric p"
    by (simp_all add: vertex_ok_def)
  have "index (map num_of p) 1 = Inr (lat_of p)" "index (map num_of p) 0 = Inr (lon_of p)"
    using p(1) by (auto simp: index_def lat_of_def lon_of_def)
  then show ?case
    using Cons.IH [OF ps] by (simp add: floats_numeric [OF p(2)] bind_err_simps)
qed

lemma getQuad_loop_bad:
  "\<not> list_all vertex_ok parts \<Longrightarrow>
     getQuad_loop parts lats lons = Inl ValueError \<or> getQuad_loop parts lats lons = Inl IndexError"
proof (induction parts arbitrary: lats lons)
  case Nil
  then show ?case by simp
next
  case (Cons p ps)
  show ?case
  proof (cases "list_all is_numeric p")
    case False
    then show ?thesis by (simp add: floats_non_numeric bind_err_simps)
  next
    case num: True
    show ?thesis
    proof (cases "2 \<le> length p")
      case False
      then have "index (map num_of p) 1 = Inl IndexError" by (simp add: index_def)
      then show ?thesis by (simp add: floats_numeric [OF num] bind_err_simps)
    next
      case True
      with num have "vertex_ok p" by (simp add: vertex_ok_def)
      with Cons.prems have ps: "\<not> list_all vertex_ok ps" by simp
      have "index (map num_of p) 1 = Inr (lat_of p)" "index (map num_of p) 0 = Inr (lon_of p)"
        using True by (auto simp: index_def lat_of_def lon_of_def)
      then show ?thesis
        using Cons.IH [OF ps] by (simp add: floats_numeric [OF num] bind_err_simps)
    qed
  qed
qed

lemma py_min_Min: "xs \<noteq> [] \<Longrightarrow> py_min xs = Inr (Min (set xs))"
proof (cases xs)
  case Nil
  assume "xs \<noteq> []"
  with Nil show ?thesis by simp
next
  case (Cons a as)
  show ?thesis by (simp only: Cons py_min.simps Min.set_eq_fold)
qed

lemma py_max_Max: "xs \<noteq> [] \<Longrightarrow> py_max xs = Inr (Max (set xs))"
proof (cases xs)
  case Nil
  assume "xs \<noteq> []"
  with Nil show ?thesis by simp
next
  case (Cons a as)
  show ?thesis by (simp only: Cons py_max.simps Max.set_eq_fold)
qed

lemma getQuad_ok:
  assumes "parts \<noteq> []" and "list_all vertex_ok parts"
  shows "getQuad parts =
           Inr (Min (lat_of ` set parts), Max (lat_of ` set parts),
                Min (lon_of ` set parts), Max (lon_of ` set parts))"
  using assms(1)
  by (simp add: getQuad_def getQuad_loop_ok [OF assms(2)] bind_err_simps py_min_Min py_max_Max)

lemma getQuad_empty: "getQuad [] = Inl ValueError"
  by (simp add: getQuad_def bind_err_simps)

lemma getQuad_bad:
  assumes "\<not> list_all vertex_ok parts"
  shows "getQuad parts = Inl ValueError \<or> getQuad parts = Inl IndexError"
  using getQuad_loop_bad [OF assms, of "[]" "[]"]
  by (auto simp: getQuad_def bind_err_simps)

text \<open>Facts about the sub-grid extraction.\<close>

lemma take_index_valid: "valid_index n k \<Longrightarrow> \<exists>r. take_index n k = Inr r"
  by (auto simp: take_index_def valid_index_def)

lemma take_index_invalid: "\<not> valid_index n k \<Longrightarrow> take_index n k = Inl IndexError"
  by (auto simp: take_index_def valid_index_def)

lemma take_indices_valid:
  "list_all (valid_index n) ks \<Longrightarrow> \<exists>rs. take_indices n ks = Inr rs \<and> length rs = length ks"
proof (induction ks)
  case Nil
  then show ?case by simp
next
  case (Cons k ks)
  then obtain r rs where "take_index n k = Inr r" "take_indices n ks = Inr rs" "length rs = length ks"
    using take_index_valid [of n k] by auto
  then show ?case by (simp add: bind_err_simps)
qed

lemma take_indices_invalid:
  "\<not> list_all (valid_index n) ks \<Longrightarrow> take_indices n ks = Inl IndexError"
proof (induction ks)
  case Nil
  then show ?case by simp
next
  case (Cons k ks)
  show ?case
  proof (cases "valid_index n k")
    case False
    then show ?thesis by (simp add: take_index_invalid bind_err_simps)
  next
    case True
    then obtain r where "take_index n k = Inr r" using take_index_valid by blast
    moreover from True Cons.prems have "take_indices n ks = Inl IndexError"
      using Cons.IH by simp
    ultimately show ?thesis by (simp add: bind_err_simps)
  qed
qed

lemma main_subgrid_rows_invalid:
  "\<not> list_all (valid_index (shape_J topo)) js \<Longrightarrow> main_subgrid topo js is = Inl IndexError"
  by (simp add: main_subgrid_def take_indices_invalid bind_err_simps)

lemma main_subgrid_no_rows: "main_subgrid topo [] is = Inr []"
  by (simp add: main_subgrid_def bind_err_simps)

lemma main_subgrid_cols_invalid:
  assumes "list_all (valid_index (shape_J topo)) js" and "js \<noteq> []"
    and "\<not> list_all (valid_index (shape_I topo)) is"
  shows "main_subgrid topo js is = Inl IndexError"
proof -
  obtain rows where "take_indices (shape_J topo) js = Inr rows" "length rows = length js"
    using take_indices_valid [OF assms(1)] by blast
  with assms(2) have "take_indices (shape_J topo) js = Inr rows" "rows \<noteq> []" by auto
  then show ?thesis
    by (simp add: main_subgrid_def take_indices_invalid [OF assms(3)] bind_err_simps)
qed

lemma main_subgrid_valid:
  assumes "list_all (valid_index (shape_J topo)) js"
    and "list_all (valid_index (shape_I topo)) is"
  shows "\<exists>z. main_subgrid topo js is = Inr z"
proof -
  obtain rows where "take_indices (shape_J topo) js = Inr rows"
    using take_indices_valid [OF assms(1)] by blast
  moreover obtain cols where "take_indices (shape_I topo) is = Inr cols"
    using take_indices_valid [OF assms(2)] by blast
  ultimately show ?thesis
    by (simp add: main_subgrid_def bind_err_simps)
qed

lemma main_subgrid_error: "main_subgrid topo js is = Inl e \<Longrightarrow> e = IndexError"
proof (cases "list_all (valid_index (shape_J topo)) js")
  case False
  assume "main_subgrid topo js is = Inl e"
  with False show ?thesis by (simp add: main_subgrid_rows_invalid)
next
  case rows: True
  assume e: "main_subgrid topo js is = Inl e"
  show ?thesis
  proof (cases "js = []")
    case True
    with e show ?thesis by (simp add: main_subgrid_no_rows)
  next
    case False
    show ?thesis
    proof (cases "list_all (valid_index (shape_I topo)) is")
      case True
      with rows e show ?thesis using main_subgrid_valid [of topo js "is"] by auto
    next
      case False
      with rows \<open>js \<noteq> []\<close> e show ?thesis by (simp add: main_subgrid_cols_invalid)
    qed
  qed
qed

lemma ball_valid_upto:
  assumes "a < (b::int)"
  shows "(\<forall>k\<in>{a .. b - 1}. - int n \<le> k \<and> k < int n) \<longleftrightarrow> - int n \<le> a \<and> b \<le> int n"
proof
  assume h: "\<forall>k\<in>{a .. b - 1}. - int n \<le> k \<and> k < int n"
  from assms have "a \<in> {a .. b - 1}" "b - 1 \<in> {a .. b - 1}" by simp_all
  with h have "- int n \<le> a" "b - 1 < int n" by blast+
  then show "- int n \<le> a \<and> b \<le> int n" by simp
next
  assume "- int n \<le> a \<and> b \<le> int n"
  then show "\<forall>k\<in>{a .. b - 1}. - int n \<le> k \<and> k < int n" by auto
qed

lemma list_all_valid_upto:
  "list_all (valid_index n) [a .. b - 1] \<longleftrightarrow> (a < b \<longrightarrow> - int n \<le> a \<and> b \<le> int n)"
proof (cases "a < b")
  case False
  then show ?thesis by simp
next
  case True
  with ball_valid_upto [OF True, of n] show ?thesis
    by (simp add: list_all_iff valid_index_def)
qed

lemma upto_empty_iff: "[a .. b - 1] = [] \<longleftrightarrow> \<not> a < (b::int)"
  by auto

text \<open>Facts about \<open>arange\<close> and about the result record.\<close>

lemma arange_empty: "arange start start step = []"
  by (simp add: arange_def fl_0)

lemma length_arange: "length (arange start stop step) = nat \<lceil>fl (fl (stop - start) / step)\<rceil>"
  by (simp add: arange_def Let_def)

lemma last_arange:
  assumes n: "nat \<lceil>fl (fl (stop - start) / step)\<rceil> = n" and "2 < n"
  shows "last (arange start stop step) =
           fl (start + fl (real (n - 1) * fl (fl (start + step) - start)))"
proof -
  from assms(2) have ne: "[0 ..< n] \<noteq> []" and l: "last [0 ..< n] = n - 1"
    and k: "n - 1 \<noteq> 0" "n - 1 \<noteq> 1"
    by simp_all
  have "arange start stop step =
          map (\<lambda>k. if k = 0 then start
                    else if k = 1 then fl (start + step)
                    else fl (start + fl (real k * fl (fl (start + step) - start)))) [0 ..< n]"
    by (simp add: arange_def Let_def n)
  then show ?thesis
    by (simp only: last_map [OF ne] l k if_False)
qed

text \<open>
  Rounding can carry the last value to \<open>stop\<close> or beyond: from 1 to 5 in steps of
  1/49 there are 197 values, and the last is above 5.
\<close>

lemma arange_beyond_stop:
  "length (arange 1 5 (fl (1 / 49))) = 197"
  "last (arange 1 5 (fl (1 / 49))) = 5629499534213125 / 1125899906842624"
proof -
  have s: "fl (1 / 49) = 5882252574524729 / 288230376151711744"
    by (simp add: fl_eval)
  have n: "nat \<lceil>fl (fl (5 - 1) / (5882252574524729 / 288230376151711744))\<rceil> = 197"
    by (simp add: fl_eval)
  show "length (arange 1 5 (fl (1 / 49))) = 197"
    unfolding s length_arange using n by simp
  show "last (arange 1 5 (fl (1 / 49))) = 5629499534213125 / 1125899906842624"
    unfolding s using last_arange [OF n] by (simp add: fl_eval)
qed

lemma sel_extend:
  "j0 (pixel_bounds.extend b m) = j0 b" "jF (pixel_bounds.extend b m) = jF b"
  "i0 (pixel_bounds.extend b m) = i0 b" "iF (pixel_bounds.extend b m) = iF b"
  "y0 (pixel_bounds.extend b m) = y0 b" "yF (pixel_bounds.extend b m) = yF b"
  "x0 (pixel_bounds.extend b m) = x0 b" "xF (pixel_bounds.extend b m) = xF b"
  "jj (pixel_bounds.extend b \<lparr>jj = js, ii = is, yy = ys, xx = xs, alt = z\<rparr>) = js"
  "ii (pixel_bounds.extend b \<lparr>jj = js, ii = is, yy = ys, xx = xs, alt = z\<rparr>) = is"
  "yy (pixel_bounds.extend b \<lparr>jj = js, ii = is, yy = ys, xx = xs, alt = z\<rparr>) = ys"
  "xx (pixel_bounds.extend b \<lparr>jj = js, ii = is, yy = ys, xx = xs, alt = z\<rparr>) = xs"
  "alt (pixel_bounds.extend b \<lparr>jj = js, ii = is, yy = ys, xx = xs, alt = z\<rparr>) = z"
  by (cases b; simp add: pixel_bounds.defs resampled.defs)+

text \<open>Facts about the pipeline: when it returns, and what it returns.\<close>

lemma main_from_quad_ok:
  assumes b: "main_bounds_f64 q (shape_J topo) (shape_I topo) = Inr b"
    and len: "j0 b + 4 \<le> jF b" "i0 b + 4 \<le> iF b"
    and rows: "- int (shape_J topo) \<le> j0 b" "jF b \<le> int (shape_J topo)"
    and cols: "- int (shape_I topo) \<le> i0 b" "iF b \<le> int (shape_I topo)"
    and ppd: "ppd \<noteq> 0"
  shows "\<exists>z. main_from_quad spline q topo ppd =
           Inr (pixel_bounds.extend b
              \<lparr>jj = [j0 b .. jF b - 1], ii = [i0 b .. iF b - 1],
               yy = arange (y0 b) (yF b) (fl (1 / ppd)),
               xx = arange (x0 b) (xF b) (fl (1 / ppd)),
               alt = map (\<lambda>y. map (\<lambda>x. spline [j0 b .. jF b - 1] [i0 b .. iF b - 1] z y x)
                                   (arange (x0 b) (xF b) (fl (1 / ppd))))
                         (arange (y0 b) (yF b) (fl (1 / ppd)))\<rparr>)"
proof -
  let ?js = "[j0 b .. jF b - 1]" and ?is = "[i0 b .. iF b - 1]"
  have "list_all (valid_index (shape_J topo)) ?js" "list_all (valid_index (shape_I topo)) ?is"
    using rows cols by (simp_all add: list_all_valid_upto)
  then obtain z where z: "main_subgrid topo ?js ?is = Inr z"
    using main_subgrid_valid by blast
  have "RectBivariateSpline spline ?js ?is z = Inr (spline ?js ?is z)"
    using len by (auto simp: RectBivariateSpline_def)
  with b z ppd have "main_from_quad spline q topo ppd =
           Inr (pixel_bounds.extend b
              \<lparr>jj = ?js, ii = ?is,
               yy = arange (y0 b) (yF b) (fl (1 / ppd)),
               xx = arange (x0 b) (xF b) (fl (1 / ppd)),
               alt = map (\<lambda>y. map (\<lambda>x. spline ?js ?is z y x)
                                   (arange (x0 b) (xF b) (fl (1 / ppd))))
                         (arange (y0 b) (yF b) (fl (1 / ppd)))\<rparr>)"
    by (simp add: main_from_quad_def bind_err_simps Let_def)
  then show ?thesis by blast
qed

lemma main_from_quad_few_samples:
  assumes b: "main_bounds_f64 q (shape_J topo) (shape_I topo) = Inr b"
    and few: "jF b < j0 b + 4 \<or> iF b < i0 b + 4"
  shows "main_from_quad spline q topo ppd = Inl IndexError
       \<or> main_from_quad spline q topo ppd = Inl InsufficientSamplesError"
proof -
  let ?js = "[j0 b .. jF b - 1]" and ?is = "[i0 b .. iF b - 1]"
  have fit: "RectBivariateSpline spline ?js ?is z = Inl InsufficientSamplesError" for z
    using few by (auto simp: RectBivariateSpline_def)
  show ?thesis
  proof (cases "main_subgrid topo ?js ?is")
    case (Inl e)
    then have "e = IndexError" by (rule main_subgrid_error)
    with Inl b show ?thesis by (simp add: main_from_quad_def bind_err_simps Let_def)
  next
    case (Inr z)
    with b fit show ?thesis by (simp add: main_from_quad_def bind_err_simps Let_def)
  qed
qed

lemma flat_raster_shape:
  "shape_J (flat_raster J I) = J" "shape_I (flat_raster J I) = I"
  by (simp_all add: flat_raster_def)

text \<open>
  The binary64 images of the latitudes and longitudes used below, on a raster of
  shape (180, 360). All are exact but that of longitude 40, which is one spacing
  above 220.
\<close>

lemma row_of_lat:
  "interp1_f64 [90, - 90] [0, 180] 10 = Inr 80"
  "interp1_f64 [90, - 90] [0, 180] 20 = Inr 70"
  "interp1_f64 [90, - 90] [0, 180] 100 = Inr (- 10)"
  "interp1_f64 [90, - 90] [0, 180] 110 = Inr (- 20)"
  "interp1_f64 [90, - 90] [0, 180] (21 / 2) = Inr (159 / 2)"
  by (simp_all add: interp1_f64_pair fl_eval)

lemma col_of_lon:
  "interp1_f64 [- 180, 180] [0, 360] 30 = Inr 210"
  "interp1_f64 [- 180, 180] [0, 360] 45 = Inr 225"
  "interp1_f64 [- 180, 180] [0, 360] (61 / 2) = Inr (421 / 2)"
  "interp1_f64 [- 180, 180] [0, 360] 40 = Inr (7740561859543041 / 35184372088832)"
  by (simp_all add: interp1_f64_pair fl_eval)

text \<open>Facts about \<open>defaultColorMap\<close> on a two-element range.\<close>

lemma index_pair_1: "index [a, b] 1 = Inr b"
  by (simp add: index_def)

lemma defaultColorMap_pair:
  "defaultColorMap a [lo, hi] =
     (if a < 0 then (if lo = 0 then Inl ZeroDivisionError else Inr [0, 0, (a - lo) / (0 - lo)])
      else (if hi = 0 then Inl ZeroDivisionError else Inr [a / hi, 1, a / hi]))"
  by (auto simp: defaultColorMap_def index_pair index_pair_1 interp1_pair bind_err_simps)

lemma defaultColorMap_in_unit_cube:
  assumes "lo \<le> a" and "a \<le> hi" and "a < 0 \<or> hi \<noteq> 0"
  shows "\<exists>r g b. defaultColorMap a [lo, hi] = Inr [r, g, b]
           \<and> 0 \<le> r \<and> r \<le> 1 \<and> 0 \<le> g \<and> g \<le> 1 \<and> 0 \<le> b \<and> b \<le> 1"
proof (cases "a < 0")
  case True
  with assms(1) have "lo < 0" by simp
  with True assms(1) have "0 \<le> (a - lo) / (0 - lo)" "(a - lo) / (0 - lo) \<le> 1"
    by (simp_all add: field_simps)
  with True \<open>lo < 0\<close> show ?thesis by (simp add: defaultColorMap_pair)
next
  case False
  with assms have "0 < hi" by auto
  with False assms(2) have "0 \<le> a / hi" "a / hi \<le> 1" by simp_all
  with False \<open>0 < hi\<close> show ?thesis by (simp add: defaultColorMap_pair)
qed

section \<open>The pixel bounds enclose the mapped quad\<close>

text \<open>
  Claim C2. For every quad and every raster shape \<open>(J, I)\<close>, lines 66-73 of \<open>main\<close>
  raise nothing; the fractional bounds are \<open>y0\<close> from \<open>latMax\<close>, \<open>yF\<close> from \<open>latMin\<close>,
  \<open>x0\<close> from \<open>lonMin\<close> and \<open>xF\<close> from \<open>lonMax\<close>; the integer bounds are
  \<open>j0 = floor y0\<close>, \<open>jF = ceil yF\<close>, \<open>i0 = floor x0\<close>, \<open>iF = ceil xF\<close>; and they enclose
  the fractional ones: \<open>j0 \<le> y0\<close>, \<open>yF \<le> jF\<close>, \<open>i0 \<le> x0\<close>, \<open>xF \<le> iF\<close>. The ordering
  of the quad is not needed.
\<close>

theorem main_bounds_enclose:
  "\<exists>b. main_bounds (latMin, latMax, lonMin, lonMax) J I = Inr b
     \<and> interp1 [90, - 90] [0, real J] latMax = Inr (y0 b)
     \<and> interp1 [90, - 90] [0, real J] latMin = Inr (yF b)
     \<and> interp1 [- 180, 180] [0, real I] lonMin = Inr (x0 b)
     \<and> interp1 [- 180, 180] [0, real I] lonMax = Inr (xF b)
     \<and> j0 b = \<lfloor>y0 b\<rfloor> \<and> jF b = \<lceil>yF b\<rceil> \<and> i0 b = \<lfloor>x0 b\<rfloor> \<and> iF b = \<lceil>xF b\<rceil>
     \<and> real_of_int (j0 b) \<le> y0 b \<and> yF b \<le> real_of_int (jF b)
     \<and> real_of_int (i0 b) \<le> x0 b \<and> xF b \<le> real_of_int (iF b)"
proof -
  obtain ya yb xa xb where i:
    "interp1 [90, - 90] [0, real J] latMax = Inr ya"
    "interp1 [90, - 90] [0, real J] latMin = Inr yb"
    "interp1 [- 180, 180] [0, real I] lonMin = Inr xa"
    "interp1 [- 180, 180] [0, real I] lonMax = Inr xb"
    using interp1_row interp1_col by blast
  have "main_bounds (latMin, latMax, lonMin, lonMax) J I =
          Inr \<lparr>y0 = ya, yF = yb, x0 = xa, xF = xb,
               j0 = \<lfloor>ya\<rfloor>, jF = \<lceil>yb\<rceil>, i0 = \<lfloor>xa\<rfloor>, iF = \<lceil>xb\<rceil>\<rparr>"
    by (simp add: main_bounds_def i bind_err_simps)
  with i show ?thesis by simp
qed

theorem main_bounds_enclose_witness:
  "\<exists>b. main_bounds (10.5, 20.25, 30, 40) 180 360 = Inr b
     \<and> interp1 [90, - 90] [0, real (180::nat)] 20.25 = Inr (y0 b)
     \<and> interp1 [90, - 90] [0, real (180::nat)] 10.5 = Inr (yF b)
     \<and> interp1 [- 180, 180] [0, real (360::nat)] 30 = Inr (x0 b)
     \<and> interp1 [- 180, 180] [0, real (360::nat)] 40 = Inr (xF b)
     \<and> j0 b = \<lfloor>y0 b\<rfloor> \<and> jF b = \<lceil>yF b\<rceil> \<and> i0 b = \<lfloor>x0 b\<rfloor> \<and> iF b = \<lceil>xF b\<rceil>
     \<and> real_of_int (j0 b) \<le> y0 b \<and> yF b \<le> real_of_int (jF b)
     \<and> real_of_int (i0 b) \<le> x0 b \<and> xF b \<le> real_of_int (iF b)"
  using main_bounds_enclose [of "10.5" "20.25" 30 40 180 360] .

section \<open>The pixel mapping and its inverse\<close>

text \<open>
  Claim C4. Over exact arithmetic, for a raster with at least one row and one column
  and every latitude and longitude, mapping to pixel space and back is the identity:
  \<open>interp1 [0, J] [90, -90] (interp1 [90, -90] [0, J] lat) = lat\<close> and
  \<open>interp1 [0, I] [-180, 180] (interp1 [-180, 180] [0, I] lon) = lon\<close>, no call
  raising. (With \<open>J = 0\<close> or \<open>I = 0\<close> the inverse divides by zero.)
\<close>

theorem interp1_roundtrip:
  assumes "0 < J" and "0 < I"
  shows "(\<exists>row. interp1 [90, - 90] [0, real J] lat = Inr row
            \<and> interp1 [0, real J] [90, - 90] row = Inr lat)
       \<and> (\<exists>col. interp1 [- 180, 180] [0, real I] lon = Inr col
            \<and> interp1 [0, real I] [- 180, 180] col = Inr lon)"
proof -
  have "interp1 [0, real J] [90, - 90] ((90 - lat) * real J / 180) = Inr lat"
    using assms(1) by (simp add: interp1_pair field_simps)
  moreover have "interp1 [0, real I] [- 180, 180] ((lon + 180) * real I / 360) = Inr lon"
    using assms(2) by (simp add: interp1_pair field_simps)
  ultimately show ?thesis
    using interp1_row [of J lat] interp1_col [of I lon] by blast
qed

theorem interp1_roundtrip_witness:
  "(0::nat) < 180 \<and> (0::nat) < 360
     \<and> (\<exists>row. interp1 [90, - 90] [0, real (180::nat)] 33.25 = Inr row
            \<and> interp1 [0, real (180::nat)] [90, - 90] row = Inr 33.25)
     \<and> (\<exists>col. interp1 [- 180, 180] [0, real (360::nat)] (- 118.5) = Inr col
            \<and> interp1 [0, real (360::nat)] [- 180, 180] col = Inr (- 118.5))"
  using interp1_roundtrip [of 180 360 "33.25" "- 118.5"] by simp

section \<open>The quad of a boundary\<close>

text \<open>
  Claim C8. For every boundary with at least one vertex, each vertex a part of at least
  two numeric pieces, \<open>getQuad\<close> returns a quad whose \<open>latMin\<close> and \<open>latMax\<close> are the
  minimum and the maximum of all vertex latitudes and whose \<open>lonMin\<close> and \<open>lonMax\<close>
  are the minimum and the maximum of all vertex longitudes; hence \<open>latMin \<le> latMax\<close>
  and \<open>lonMin \<le> lonMax\<close>.
\<close>

theorem getQuad_extrema:
  assumes "parts \<noteq> []" and "list_all vertex_ok parts"
  shows "\<exists>latMin latMax lonMin lonMax.
           getQuad parts = Inr (latMin, latMax, lonMin, lonMax)
         \<and> latMin = Min (lat_of ` set parts) \<and> latMax = Max (lat_of ` set parts)
         \<and> lonMin = Min (lon_of ` set parts) \<and> lonMax = Max (lon_of ` set parts)
         \<and> latMin \<le> latMax \<and> lonMin \<le> lonMax"
proof -
  have "Min (lat_of ` set parts) \<le> Max (lat_of ` set parts)"
    using assms(1) by (simp add: Min_le_iff)
  moreover have "Min (lon_of ` set parts) \<le> Max (lon_of ` set parts)"
    using assms(1) by (simp add: Min_le_iff)
  ultimately show ?thesis
    using getQuad_ok [OF assms] by simp
qed

theorem getQuad_extrema_witness:
  "getQuad [[Numeric 30, Numeric 20], [Numeric 40, Numeric 10], [Numeric 35, Numeric 15]]
     = Inr (10, 20, 30, 40)"
  using getQuad_extrema
    [of "[[Numeric 30, Numeric 20], [Numeric 40, Numeric 10], [Numeric 35, Numeric 15]]"]
  by (simp add: vertex_ok_def lat_of_def lon_of_def)

section \<open>When boundary extraction fails\<close>

text \<open>
  Claim C5, as stated, fails: a boundary of exactly two vertices is accepted and its
  quad returned. \<open>getQuad\<close> counts no vertices and has no error class of its own.
\<close>

theorem getQuad_two_vertices_counterexample:
  "getQuad [[Numeric 30, Numeric 10], [Numeric 40, Numeric 20]] = Inr (10, 20, 30, 40)"
  by (simp add: getQuad_def bind_err_simps index_def)

text \<open>
  Claim C5, amended. \<open>getQuad\<close> fails exactly when the boundary has no vertex, or some
  vertex has a non-numeric piece or fewer than two pieces; the exception is then
  Python's \<open>ValueError\<close> or \<open>IndexError\<close>. Every boundary of one or more well-formed
  vertices, two included, yields a quad.
\<close>

theorem getQuad_fails_iff:
  "((\<exists>e. getQuad parts = Inl e) \<longleftrightarrow> parts = [] \<or> \<not> list_all vertex_ok parts)
   \<and> (\<forall>e. getQuad parts = Inl e \<longrightarrow> e = ValueError \<or> e = IndexError)"
proof (cases "parts = [] \<or> \<not> list_all vertex_ok parts")
  case True
  then have "getQuad parts = Inl ValueError \<or> getQuad parts = Inl IndexError"
    using getQuad_empty getQuad_bad by blast
  with True show ?thesis by auto
next
  case False
  then show ?thesis using getQuad_ok [of parts] by simp
qed

theorem getQuad_fails_iff_witness:
  "(\<exists>e. getQuad [[Numeric 30, Numeric 10], [Numeric 40, NonNumeric]] = Inl e)
   \<and> (\<exists>e. getQuad [[Numeric 30, Numeric 10], [Numeric 40]] = Inl e)
   \<and> \<not> (\<exists>e. getQuad [[Numeric 30, Numeric 10], [Numeric 40, Numeric 20]] = Inl e)"
proof -
  have "\<exists>e. getQuad [[Numeric 30, Numeric 10], [Numeric 40, NonNumeric]] = Inl e"
    using getQuad_fails_iff [of "[[Numeric 30, Numeric 10], [Numeric 40, NonNumeric]]"]
    by (simp add: vertex_ok_def)
  moreover have "\<exists>e. getQuad [[Numeric 30, Numeric 10], [Numeric 40]] = Inl e"
    using getQuad_fails_iff [of "[[Numeric 30, Numeric 10], [Numeric 40]]"]
    by (simp add: vertex_ok_def)
  moreover have "\<not> (\<exists>e. getQuad [[Numeric 30, Numeric 10], [Numeric 40, Numeric 20]] = Inl e)"
    using getQuad_fails_iff [of "[[Numeric 30, Numeric 10], [Numeric 40, Numeric 20]]"]
    by (simp add: vertex_ok_def)
  ultimately show ?thesis by blast
qed

section \<open>When sub-grid extraction fails\<close>

text \<open>
  Claim C6, as stated, fails: the quad of latitudes 100 to 110 and longitudes 30 to 45
  lies entirely outside the extent of a 180 by 360 raster, its row bounds are
  \<open>j0 = -20\<close> and \<open>jF = -10\<close>, outside \<open>[0, J)\<close>, and neither the extraction nor the
  rest of the pipeline raises: \<open>numpy.take\<close> counts negative indices from the end.
\<close>

theorem main_outside_extent_counterexample:
  "main_bounds_f64 (100, 110, 30, 45) 180 360 =
     Inr \<lparr>y0 = - 20, yF = - 10, x0 = 210, xF = 225, j0 = - 20, jF = - 10, i0 = 210, iF = 225\<rparr>
   \<and> \<not> isl (main_subgrid (flat_raster 180 360) [- 20 .. - 10 - 1] [210 .. 225 - 1])
   \<and> \<not> isl (main_from_quad zero_spline (100, 110, 30, 45) (flat_raster 180 360) 1)"
proof -
  let ?b = "\<lparr>y0 = - 20, yF = - 10, x0 = 210, xF = 225,
             j0 = - 20, jF = - 10, i0 = 210, iF = 225\<rparr>"
  have b: "main_bounds_f64 (100, 110, 30, 45) 180 360 = Inr ?b"
    by (simp add: main_bounds_f64_def row_of_lat col_of_lon bind_err_simps)
  have "\<exists>z. main_subgrid (flat_raster 180 360) [- 20 .. - 10 - 1] [210 .. 225 - 1] = Inr z"
    by (rule main_subgrid_valid) (simp_all add: flat_raster_shape valid_index_def)
  then have s: "\<not> isl (main_subgrid (flat_raster 180 360) [- 20 .. - 10 - 1] [210 .. 225 - 1])"
    by auto
  have "\<exists>r. main_from_quad zero_spline (100, 110, 30, 45) (flat_raster 180 360) 1 = Inr r"
    using main_from_quad_ok [of "(100, 110, 30, 45)" "flat_raster 180 360" ?b 1 zero_spline] b
    by (auto simp: flat_raster_shape)
  then have "\<not> isl (main_from_quad zero_spline (100, 110, 30, 45) (flat_raster 180 360) 1)"
    by auto
  with b s show ?thesis by blast
qed

text \<open>
  Claim C6, amended. For the index ranges \<open>[j0, jF)\<close> and \<open>[i0, iF)\<close> the extraction
  raises exactly when the row range is not empty and either a row bound is outside
  \<open>[-J, J]\<close>, or the column range is not empty and a column bound is outside
  \<open>[-I, I]\<close>; the exception is Python's \<open>IndexError\<close>, the only one the extraction
  can raise.
\<close>

theorem main_subgrid_fails_iff:
  "(main_subgrid topo [a .. b - 1] [c .. d - 1] = Inl IndexError \<longleftrightarrow>
      a < b \<and> (a < - int (shape_J topo) \<or> int (shape_J topo) < b
               \<or> (c < d \<and> (c < - int (shape_I topo) \<or> int (shape_I topo) < d))))
   \<and> (\<forall>e. main_subgrid topo [a .. b - 1] [c .. d - 1] = Inl e \<longrightarrow> e = IndexError)"
proof -
  let ?js = "[a .. b - 1]" and ?is = "[c .. d - 1]"
  have "main_subgrid topo ?js ?is = Inl IndexError \<longleftrightarrow>
          \<not> list_all (valid_index (shape_J topo)) ?js
          \<or> (?js \<noteq> [] \<and> \<not> list_all (valid_index (shape_I topo)) ?is)"
    using main_subgrid_rows_invalid [of topo ?js ?is] main_subgrid_no_rows [of topo ?is]
      main_subgrid_cols_invalid [of topo ?js ?is] main_subgrid_valid [of topo ?js ?is]
    by (cases "?js = []") auto
  then show ?thesis
    unfolding list_all_valid_upto upto_empty_iff
    using main_subgrid_error [of topo ?js ?is] by auto
qed

theorem main_subgrid_fails_iff_witness:
  "main_subgrid (flat_raster 180 360) [170 .. 190 - 1] [210 .. 220 - 1] = Inl IndexError
   \<and> main_subgrid (flat_raster 180 360) [- 20 .. - 10 - 1] [210 .. 220 - 1] \<noteq> Inl IndexError"
  using main_subgrid_fails_iff [of "flat_raster 180 360" 170 190 210 220]
    main_subgrid_fails_iff [of "flat_raster 180 360" "- 20" "- 10" 210 220]
  by (simp add: flat_raster_shape)

section \<open>The 180 by 360 scenario\<close>

text \<open>
  Claim C7 fails on the code. For a raster of shape (180, 360), the rectangle of
  latitudes 10 to 20 and longitudes 30 to 40, and a density of 1, the extracted quad is
  (10, 20, 30, 40) and the row bounds are 70 and 80, with 10 rows of output; but the
  binary64 image of longitude 40 is one spacing above 220, so that \<open>iF = 221\<close>, the
  column coordinate sequence has 11 values, and the output grid is 10 by 11.
\<close>

theorem main_scenario_ten_by_eleven:
  "getQuad [[Numeric 30, Numeric 10], [Numeric 40, Numeric 10],
            [Numeric 40, Numeric 20], [Numeric 30, Numeric 20]] = Inr (10, 20, 30, 40)
   \<and> (\<exists>r. main zero_spline
             [[Numeric 30, Numeric 10], [Numeric 40, Numeric 10],
              [Numeric 40, Numeric 20], [Numeric 30, Numeric 20]] (flat_raster 180 360) 1 = Inr r
         \<and> j0 r = 70 \<and> jF r = 80 \<and> i0 r = 210 \<and> iF r = 221
         \<and> length (yy r) = 10 \<and> length (xx r) = 11
         \<and> map length (alt r) = replicate 10 11)"
proof -
  let ?parts = "[[Numeric 30, Numeric 10], [Numeric 40, Numeric 10],
                 [Numeric 40, Numeric 20], [Numeric 30, Numeric 20]]"
  let ?xF = "7740561859543041 / 35184372088832 :: real"
  let ?b = "\<lparr>y0 = 70, yF = 80, x0 = 210, xF = ?xF, j0 = 70, jF = 80, i0 = 210, iF = 221\<rparr>"
  have q: "getQuad ?parts = Inr (10, 20, 30, 40)"
    by (simp add: getQuad_def bind_err_simps index_def)
  have b: "main_bounds_f64 (10, 20, 30, 40) (shape_J (flat_raster 180 360))
             (shape_I (flat_raster 180 360)) = Inr ?b"
    by (simp add: flat_raster_shape main_bounds_f64_def row_of_lat col_of_lon bind_err_simps)
  have ny: "nat \<lceil>fl (fl (80 - 70) / fl (1 / 1))\<rceil> = 10"
    by (simp add: fl_eval)
  have nx: "nat \<lceil>fl (fl (?xF - 210) / fl (1 / 1))\<rceil> = 11"
    by (simp add: fl_eval)
  obtain r where r: "main_from_quad zero_spline (10, 20, 30, 40) (flat_raster 180 360) 1 = Inr r"
    and f: "j0 r = 70" "jF r = 80" "i0 r = 210" "iF r = 221"
      "yy r = arange 70 80 (fl (1 / 1))" "xx r = arange 210 ?xF (fl (1 / 1))"
      "map length (alt r)
         = map (\<lambda>y. length (arange 210 ?xF (fl (1 / 1)))) (arange 70 80 (fl (1 / 1)))"
    using main_from_quad_ok [OF b, of 1 zero_spline]
    by (auto simp: sel_extend flat_raster_shape comp_def)
  have ly: "length (yy r) = 10" and lx: "length (xx r) = 11"
    unfolding f length_arange using ny nx by simp_all
  have "map length (alt r) = replicate 10 11"
    unfolding f(7) using ly lx by (simp add: f(5,6) map_replicate_const)
  with r f ly lx have "\<exists>r. main_from_quad zero_spline (10, 20, 30, 40) (flat_raster 180 360) 1 = Inr r
         \<and> j0 r = 70 \<and> jF r = 80 \<and> i0 r = 210 \<and> iF r = 221
         \<and> length (yy r) = 10 \<and> length (xx r) = 11
         \<and> map length (alt r) = replicate 10 11"
    by blast
  with q show ?thesis
    unfolding main_def q bind_err_simps by blast
qed

section \<open>Evaluation coordinates and the fitted sub-grid\<close>

text \<open>
  Claim C1 fails on the code. For the quad (10, 20, 30, 45) on a 180 by 360 raster at 2
  points per degree, where every binary64 operation is exact, the last fitted row
  coordinate is 79 and the last fitted column coordinate 224, while the resampler
  evaluates at row 79.5 and column 224.5: the range of fitted coordinates stops one
  short of \<open>jF\<close> and \<open>iF\<close>.
\<close>

theorem main_evaluates_beyond_last_row:
  "\<exists>r. main_from_quad zero_spline (10, 20, 30, 45) (flat_raster 180 360) 2 = Inr r
     \<and> last (jj r) = 79 \<and> last (yy r) = 159 / 2
     \<and> last (ii r) = 224 \<and> last (xx r) = 449 / 2"
proof -
  let ?b = "\<lparr>y0 = 70, yF = 80, x0 = 210, xF = 225, j0 = 70, jF = 80, i0 = 210, iF = 225\<rparr>"
  have b: "main_bounds_f64 (10, 20, 30, 45) (shape_J (flat_raster 180 360))
             (shape_I (flat_raster 180 360)) = Inr ?b"
    by (simp add: flat_raster_shape main_bounds_f64_def row_of_lat col_of_lon bind_err_simps)
  have h: "fl (1 / 2) = 1 / 2"
    by (simp add: fl_eval)
  obtain r where r: "main_from_quad zero_spline (10, 20, 30, 45) (flat_raster 180 360) 2 = Inr r"
    and f: "jj r = [70 .. 79]" "ii r = [210 .. 224]"
      "yy r = arange 70 80 (1 / 2)" "xx r = arange 210 225 (1 / 2)"
    using main_from_quad_ok [OF b, of 2 zero_spline]
    by (auto simp: sel_extend flat_raster_shape h)
  have ny: "nat \<lceil>fl (fl (80 - 70) / (1 / 2))\<rceil> = 20"
    and nx: "nat \<lceil>fl (fl (225 - 210) / (1 / 2))\<rceil> = 30"
    by (simp_all add: fl_eval)
  have "last (jj r) = 79" "last (ii r) = 224" unfolding f by simp_all
  moreover have "last (yy r) = 159 / 2"
    unfolding f using last_arange [OF ny] by (simp add: fl_eval)
  moreover have "last (xx r) = 449 / 2"
    unfolding f using last_arange [OF nx] by (simp add: fl_eval)
  ultimately show ?thesis using r by blast
qed

section \<open>Degenerate quads\<close>

text \<open>
  Claim C10, as stated, fails: for the single-vertex boundary at longitude 30.5 and
  latitude 10.5 the pipeline returns no raster; the sub-grid has one row and one
  column and the fit is refused.
\<close>

theorem main_single_point_counterexample:
  "main zero_spline [[Numeric 30.5, Numeric 10.5]] (flat_raster 180 360) 1
     = Inl InsufficientSamplesError"
proof -
  have q: "getQuad [[Numeric 30.5, Numeric 10.5]] = Inr (10.5, 10.5, 30.5, 30.5)"
    by (simp add: getQuad_def bind_err_simps index_def)
  have s: "main_subgrid (flat_raster 180 360) [79] [210] = Inr [[0]]"
    by (simp add: main_subgrid_def take_index_def flat_raster_def bind_err_simps)
  have m: "main_from_quad zero_spline (10.5, 10.5, 30.5, 30.5) (flat_raster 180 360) 1
             = Inl InsufficientSamplesError"
    by (simp add: main_from_quad_def flat_raster_shape main_bounds_f64_def row_of_lat
        col_of_lon bind_err_simps s RectBivariateSpline_def)
  show ?thesis
    unfolding main_def q bind_err_simps by (rule m)
qed

text \<open>
  Claim C10, amended. If \<open>latMin = latMax\<close> then \<open>y0 = yF\<close> and the row coordinate
  sequence from \<open>y0\<close> to \<open>yF\<close> is empty, and if \<open>lonMin = lonMax\<close> then \<open>x0 = xF\<close> and
  the column coordinate sequence is empty; but the sub-grid then has at most one row
  (respectively one column), fewer than the fit needs, and in either case the pipeline
  fails, at the extraction with \<open>IndexError\<close> or at the fit with
  \<open>InsufficientSamplesError\<close>, instead of returning an empty raster.
\<close>

theorem main_degenerate_quad_fails:
  "\<exists>b. main_bounds_f64 (latMin, latMax, lonMin, lonMax) (shape_J topo) (shape_I topo) = Inr b
     \<and> (latMin = latMax \<longrightarrow>
          y0 b = yF b \<and> arange (y0 b) (yF b) (fl (1 / ppd)) = []
          \<and> length [j0 b .. jF b - 1] \<le> 1)
     \<and> (lonMin = lonMax \<longrightarrow>
          x0 b = xF b \<and> arange (x0 b) (xF b) (fl (1 / ppd)) = []
          \<and> length [i0 b .. iF b - 1] \<le> 1)
     \<and> (latMin = latMax \<or> lonMin = lonMax \<longrightarrow>
          main_from_quad spline (latMin, latMax, lonMin, lonMax) topo ppd = Inl IndexError
          \<or> main_from_quad spline (latMin, latMax, lonMin, lonMax) topo ppd
             = Inl InsufficientSamplesError)"
proof -
  let ?q = "(latMin, latMax, lonMin, lonMax)"
  obtain ya yb xa xb where i:
    "interp1_f64 [90, - 90] [0, real (shape_J topo)] latMax = Inr ya"
    "interp1_f64 [90, - 90] [0, real (shape_J topo)] latMin = Inr yb"
    "interp1_f64 [- 180, 180] [0, real (shape_I topo)] lonMin = Inr xa"
    "interp1_f64 [- 180, 180] [0, real (shape_I topo)] lonMax = Inr xb"
    using interp1_f64_row interp1_f64_col by blast
  let ?b = "\<lparr>y0 = ya, yF = yb, x0 = xa, xF = xb,
             j0 = \<lfloor>ya\<rfloor>, jF = \<lceil>yb\<rceil>, i0 = \<lfloor>xa\<rfloor>, iF = \<lceil>xb\<rceil>\<rparr>"
  have b: "main_bounds_f64 ?q (shape_J topo) (shape_I topo) = Inr ?b"
    by (rule main_bounds_f64_Inr [OF i])
  have c: "\<lceil>v\<rceil> \<le> \<lfloor>v\<rfloor> + 1" for v :: real
    by (simp add: ceiling_le_iff)
  have rows: "ya = yb \<and> arange ya yb (fl (1 / ppd)) = [] \<and> length [\<lfloor>ya\<rfloor> .. \<lceil>yb\<rceil> - 1] \<le> 1"
    if "latMin = latMax"
    using that i(1,2) c [of yb] by (auto simp: arange_empty)
  have cols: "xa = xb \<and> arange xa xb (fl (1 / ppd)) = [] \<and> length [\<lfloor>xa\<rfloor> .. \<lceil>xb\<rceil> - 1] \<le> 1"
    if "lonMin = lonMax"
    using that i(3,4) c [of xb] by (auto simp: arange_empty)
  have fails: "main_from_quad spline ?q topo ppd = Inl IndexError
      \<or> main_from_quad spline ?q topo ppd = Inl InsufficientSamplesError"
    if "latMin = latMax \<or> lonMin = lonMax"
  proof -
    from that rows cols have "jF ?b < j0 ?b + 4 \<or> iF ?b < i0 ?b + 4"
      using c [of yb] c [of xb] by auto
    from main_from_quad_few_samples [OF b this] show ?thesis .
  qed
  from b rows cols fails show ?thesis by auto
qed

theorem main_degenerate_quad_fails_witness:
  "(\<exists>b. main_bounds_f64 (10, 10, 30, 45) 180 360 = Inr b
        \<and> y0 b = yF b \<and> arange (y0 b) (yF b) (fl (1 / 50)) = []
        \<and> length [j0 b .. jF b - 1] \<le> 1)
   \<and> (main_from_quad zero_spline (10, 10, 30, 45) (flat_raster 180 360) 50 = Inl IndexError
      \<or> main_from_quad zero_spline (10, 10, 30, 45) (flat_raster 180 360) 50
         = Inl InsufficientSamplesError)
   \<and> (\<exists>b. main_bounds_f64 (10, 20, 30, 30) 180 360 = Inr b
        \<and> x0 b = xF b \<and> arange (x0 b) (xF b) (fl (1 / 50)) = []
        \<and> length [i0 b .. iF b - 1] \<le> 1)
   \<and> (main_from_quad zero_spline (10, 20, 30, 30) (flat_raster 180 360) 50 = Inl IndexError
      \<or> main_from_quad zero_spline (10, 20, 30, 30) (flat_raster 180 360) 50
         = Inl InsufficientSamplesError)"
  using main_degenerate_quad_fails [of 10 10 30 45 "flat_raster 180 360" 50 zero_spline]
    main_degenerate_quad_fails [of 10 20 30 30 "flat_raster 180 360" 50 zero_spline]
  by (simp add: flat_raster_shape) blast

section \<open>The default colour map\<close>

text \<open>
  Claim C9 fails on the code: for the altitude 0 in a heightmap of range \<open>[-10, 0]\<close>,
  which satisfies \<open>min \<le> alt \<le> max\<close>, the colour map divides by \<open>max - 0 = 0\<close>.
  Everywhere else in the claimed domain the result is a triplet in the unit cube
  (\<open>defaultColorMap_in_unit_cube\<close> above).
\<close>

theorem defaultColorMap_sea_level_peak:
  "defaultColorMap 0 [- 10, 0] = Inl ZeroDivisionError"
  by (simp add: defaultColorMap_pair)

end
